theory Spec2Isabelle
  imports Complex_Main
begin

section \<open>Escrow project lifecycle of the marketplace backend\<close>

text \<open>
  This theory embeds the handlers of \<^verbatim>\<open>src/routes/escrow.js\<close> together with the
  Mongoose schemas they write to (\<^verbatim>\<open>src/models/EscrowProject.js\<close>,
  \<^verbatim>\<open>src/models/Transaction.js\<close>, the review and notification schemas).

  Conventions of the embedding:
  \<^item> A JavaScript \<^verbatim>\<open>Number\<close> is an exact rational. On the whole amounts the handlers
    are meant for, the double products \<^verbatim>\<open>total * 0.1\<close>, \<^verbatim>\<open>total * 0.9\<close> and
    \<^verbatim>\<open>total * (5 / 100)\<close> round to the same integer as the exact products.
  \<^item> Request fields are typed: a number field is a rational, an identifier is a
    well-formed ObjectId (a natural number here), a date is a timestamp. An absent
    (\<^verbatim>\<open>undefined\<close> or \<^verbatim>\<open>null\<close>) field is \<open>None\<close>. The rating of a rate request
    is the exception: it is any JSON value, given by what the handler's coercions make
    of it.
  \<^item> \<^verbatim>\<open>new Date()\<close> and \<^verbatim>\<open>Date.now()\<close> read the clock of the request, \<open>now\<close>.
  \<^item> Every handler is a function from the stored collections to a response and the
    collections after the request. The \<^verbatim>\<open>try/catch\<close> of a handler is the branch that
    answers 500 with the collections as they are at the moment of the throw.
  \<^item> \<^verbatim>\<open>populate\<close> replaces a user id by the user document; the handlers read its
    \<^verbatim>\<open>_id\<close> only, so the model keeps the id. Stored projects refer to existing users.
  \<^item> The text of a notification message and the housekeeping fields Mongoose adds
    (\<^verbatim>\<open>createdAt\<close>, \<^verbatim>\<open>updatedAt\<close>, ids of subdocuments) are left out.
\<close>

subsection \<open>Numbers\<close>

type_synonym number = rat

text \<open>\<^verbatim>\<open>Math.round\<close>: the nearest integer, a half going towards plus infinity.\<close>

definition Math_round :: "number \<Rightarrow> number" where
  "Math_round x = of_int \<lfloor>x + 1 / 2\<rfloor>"

text \<open>\<^verbatim>\<open>a || b\<close> on numbers: \<open>b\<close> when \<open>a\<close> is \<^verbatim>\<open>null\<close> or \<open>0\<close>.\<close>

definition or_number :: "number option \<Rightarrow> number \<Rightarrow> number" where
  "or_number a b = (case a of None \<Rightarrow> b | Some x \<Rightarrow> if x = 0 then b else x)"

text \<open>\<^verbatim>\<open>a ?? b\<close>: \<open>b\<close> only when \<open>a\<close> is \<^verbatim>\<open>null\<close> or \<^verbatim>\<open>undefined\<close>.\<close>

definition nullish :: "'a option \<Rightarrow> 'a \<Rightarrow> 'a" where
  "nullish a b = (case a of None \<Rightarrow> b | Some x \<Rightarrow> x)"

text \<open>
  A request field of any JSON type, as a handler sees it: through \<^verbatim>\<open>!v\<close> (whether
  it is truthy) and through \<^verbatim>\<open>v < 1\<close>, \<^verbatim>\<open>v > 5\<close> and \<^verbatim>\<open>Number(v)\<close> (its conversion
  to a number, \<open>None\<close> standing for \<^verbatim>\<open>NaN\<close>). The number 5 and the string
  \<^verbatim>\<open>'5'\<close> are truthy and convert to 5; \<^verbatim>\<open>0\<close> is falsy; \<^verbatim>\<open>undefined\<close> is falsy and
  converts to \<^verbatim>\<open>NaN\<close>; the string \<^verbatim>\<open>'abc'\<close> and the object \<^verbatim>\<open>{}\<close> are truthy and
  convert to \<^verbatim>\<open>NaN\<close>.
\<close>

record js_value =
  truthy :: bool
  to_number :: "number option"

definition js_number :: "number \<Rightarrow> js_value" where
  "js_number x = \<lparr> truthy = (x \<noteq> 0), to_number = Some x \<rparr>"

definition js_undefined :: js_value where
  "js_undefined = \<lparr> truthy = False, to_number = None \<rparr>"

definition js_not_a_number :: js_value where
  "js_not_a_number = \<lparr> truthy = True, to_number = None \<rparr>"

text \<open>\<^verbatim>\<open>v < b\<close> and \<^verbatim>\<open>v > b\<close> against a number: false when \<open>v\<close> converts to \<^verbatim>\<open>NaN\<close>.\<close>

definition js_lt :: "number option \<Rightarrow> number \<Rightarrow> bool" where
  "js_lt v b = (case v of None \<Rightarrow> False | Some x \<Rightarrow> x < b)"

definition js_gt :: "number option \<Rightarrow> number \<Rightarrow> bool" where
  "js_gt v b = (case v of None \<Rightarrow> False | Some x \<Rightarrow> x > b)"

subsection \<open>Strings\<close>

definition is_space :: "char \<Rightarrow> bool" where
  "is_space c = (c \<in> set [CHR '' '', CHR 0x09, CHR 0x0A, CHR 0x0B, CHR 0x0C, CHR 0x0D])"

text \<open>\<^verbatim>\<open>String.prototype.trim\<close>, on ASCII white space.\<close>

definition trim :: "string \<Rightarrow> string" where
  "trim s = rev (dropWhile is_space (rev (dropWhile is_space s)))"

text \<open>\<^verbatim>\<open>(s || '').trim()\<close>\<close>

definition or_empty_trim :: "string option \<Rightarrow> string" where
  "or_empty_trim s = trim (case s of None \<Rightarrow> [] | Some t \<Rightarrow> t)"

subsection \<open>Documents\<close>

type_synonym uid = nat
type_synonym pid = nat
type_synonym date = nat

datatype status =
  offer_sent | accepted | rejected | pending_advance | in_progress | mid_level
  | completed | completed_released | cancelled

record milestone =
  m_title :: string
  m_description :: string
  m_progressPercent :: number
  m_completedAt :: "date option"

record project =
  clientId :: uid
  workerId :: uid
  chatWithUserId :: uid
  title :: string
  description :: string
  budget :: number
  deadline :: date
  agreedBudget :: "number option"
  agreedDeadline :: "date option"
  agreedTimeline :: string
  lockedAt :: "date option"
  status :: status
  progressPercent :: number
  milestones :: "milestone list"
  advancePaidAt :: "date option"
  advanceAmount :: number
  finalPaidAt :: "date option"
  finalAmount :: number
  platformCommissionPercent :: number
  platformCommissionAmount :: number
  workerPayoutAmount :: number
  workerPayoutAt :: "date option"
  rating :: "number option"
  review :: string
  ratedAt :: "date option"
  cancelledBy :: "string option"
  cancelReason :: string
  cancelledAt :: "date option"

datatype tx_type =
  tx_advance_payment | tx_final_payment | tx_platform_commission | tx_worker_payout
  | tx_refund

datatype tx_status = tx_pending | tx_completed | tx_failed | tx_refunded

text \<open>
  A ledger row. \<open>paymentGatewayRef\<close> holds the clock reading \<open>t\<close> of the simulated
  reference \<^verbatim>\<open>sim_t\<close>, and \<open>None\<close> for the schema's default.
\<close>

record transaction =
  tx_escrowProjectId :: pid
  tx_kind :: tx_type
  tx_amount :: number
  tx_currency :: string
  tx_fromUserId :: "uid option"
  tx_toUserId :: "uid option"
  tx_state :: tx_status
  tx_paymentGatewayRef :: "date option"
  tx_metadata :: string

record worker_review =
  r_workerId :: uid
  r_clientId :: uid
  r_escrowProjectId :: pid
  r_rating :: number
  r_review :: string

datatype notification_type =
  project_offer | project_accepted | project_rejected | advance_paid
  | project_mid_level | project_completed | final_payment_required
  | payment_released | project_cancelled | new_message

record notification =
  n_userId :: uid
  n_type :: notification_type
  n_title :: string
  n_escrowProjectId :: pid

record user_card =
  c_rating :: number
  c_ratingCount :: nat

record user_doc =
  u_name :: string
  u_email :: string

text \<open>The collections the handlers read and write, and the error console.\<close>

record db =
  projects :: "pid \<rightharpoonup> project"
  next_project :: pid
  ledger :: "transaction list"
  reviews :: "worker_review list"
  cards :: "uid \<rightharpoonup> user_card"
  users :: "uid \<rightharpoonup> user_doc"
  notifications :: "notification list"
  console :: "string list"

text \<open>
  What a request meets outside the collections: the clock, and whether the
  notification write, the e-mail and the push succeed. A failing notification write
  carries the message of its error.
\<close>

record env =
  now :: date
  notification_error :: "string option"
  email_fails :: bool
  push_fails :: bool

text \<open>\<^verbatim>\<open>req.user\<close>, as the authentication middleware leaves it.\<close>

record req_user =
  user_id :: uid
  user_name :: string

text \<open>
  A response: \<^verbatim>\<open>res.status(c).json(formatProject(project))\<close> or
  \<^verbatim>\<open>res.status(c).json({ error })\<close>.
\<close>

datatype response =
  Success (code: nat) (body: project)
  | Failure (code: nat) (error: string)

subsection \<open>Schema validation on save\<close>

text \<open>
  The milestone schema requires a title (Mongoose rejects the empty string for a
  required string) and keeps \<^verbatim>\<open>progressPercent\<close> between 0 and 100, so a save
  with new milestones that break this throws. The other validated paths of a project
  are written by the handlers with values that pass, and stored milestones passed
  when they were saved.
\<close>

definition valid_milestone :: "milestone \<Rightarrow> bool" where
  "valid_milestone m = (m_title m \<noteq> [] \<and> 0 \<le> m_progressPercent m \<and> m_progressPercent m \<le> 100)"

subsection \<open>Handlers\<close>

definition new_project :: "uid \<Rightarrow> uid \<Rightarrow> string \<Rightarrow> string \<Rightarrow> number \<Rightarrow> date \<Rightarrow> project" where
  "new_project client worker t d b dl =
     \<lparr> clientId = client, workerId = worker, chatWithUserId = worker,
       title = t, description = d, budget = b, deadline = dl,
       agreedBudget = None, agreedDeadline = None, agreedTimeline = [], lockedAt = None,
       status = offer_sent, progressPercent = 0, milestones = [],
       advancePaidAt = None, advanceAmount = 0, finalPaidAt = None, finalAmount = 0,
       platformCommissionPercent = 5, platformCommissionAmount = 0,
       workerPayoutAmount = 0, workerPayoutAt = None,
       rating = None, review = [], ratedAt = None,
       cancelledBy = None, cancelReason = [], cancelledAt = None \<rparr>"

definition createNotification ::
  "env \<Rightarrow> db \<Rightarrow> uid \<Rightarrow> notification_type \<Rightarrow> string \<Rightarrow> pid \<Rightarrow> string + db" where
  "createNotification e s u ty t p =
     (case notification_error e of
        Some msg \<Rightarrow> Inl msg
      | None \<Rightarrow> Inr (s\<lparr>notifications := notifications s @
          [\<lparr> n_userId = u, n_type = ty, n_title = t, n_escrowProjectId = p \<rparr>]\<rparr>))"

definition save_project :: "db \<Rightarrow> pid \<Rightarrow> project \<Rightarrow> db" where
  "save_project s p doc = s\<lparr>projects := (projects s)(p \<mapsto> doc)\<rparr>"

definition Transaction_create :: "db \<Rightarrow> transaction \<Rightarrow> db" where
  "Transaction_create s t = s\<lparr>ledger := ledger s @ [t]\<rparr>"

record offer_body =
  b_workerId :: "uid option"
  b_title :: "string option"
  b_description :: "string option"
  b_budget :: "number option"
  b_deadline :: "date option"

text \<open>
  \<^verbatim>\<open>!workerId || !title?.trim() || !budget || budget <= 0 || !deadline\<close>
\<close>

definition offer_invalid :: "offer_body \<Rightarrow> bool" where
  "offer_invalid b =
     (b_workerId b = None
      \<or> (case b_title b of None \<Rightarrow> True | Some t \<Rightarrow> trim t = [])
      \<or> (case b_budget b of None \<Rightarrow> True | Some x \<Rightarrow> x = 0 \<or> x \<le> 0)
      \<or> (case b_deadline b of None \<Rightarrow> True | Some d \<Rightarrow> d = 0))"

definition send_offer_email :: "env \<Rightarrow> db \<Rightarrow> uid \<Rightarrow> db" where
  "send_offer_email e s w =
     (case users s w of
        None \<Rightarrow> s
      | Some worker \<Rightarrow>
          if u_email worker \<noteq> [] \<and> email_fails e
          then s\<lparr>console := console s @ [''Project offer email failed:'']\<rparr>
          else s)"

definition send_offer_push :: "env \<Rightarrow> db \<Rightarrow> db" where
  "send_offer_push e s =
     (if push_fails e then s\<lparr>console := console s @ [''Push (project offer) failed:'']\<rparr>
      else s)"

definition create_offer_handler :: "env \<Rightarrow> db \<Rightarrow> req_user \<Rightarrow> offer_body \<Rightarrow> response \<times> db" where
  "create_offer_handler e s u b =
     (if offer_invalid b then (Failure 400 ''workerId, title, budget, deadline required'', s)
      else
        let w = the (b_workerId b);
            p = next_project s;
            doc = new_project (user_id u) w (trim (the (b_title b)))
                    (or_empty_trim (b_description b)) (the (b_budget b)) (the (b_deadline b));
            s1 = (save_project s p doc)\<lparr>next_project := Suc p\<rparr>
        in case createNotification e s1 w project_offer ''New Project Offer'' p of
             Inl msg \<Rightarrow> (Failure 500 msg, s1)
           | Inr s2 \<Rightarrow> (Success 201 doc, send_offer_push e (send_offer_email e s2 w)))"

record accept_body =
  b_agreedBudget :: "number option"
  b_agreedDeadline :: "date option"
  b_agreedTimeline :: "string option"

definition accept_handler :: "env \<Rightarrow> db \<Rightarrow> pid \<Rightarrow> req_user \<Rightarrow> accept_body \<Rightarrow> response \<times> db" where
  "accept_handler e s p u b =
     (case projects s p of
        None \<Rightarrow> (Failure 404 ''Project not found'', s)
      | Some doc \<Rightarrow>
          if workerId doc \<noteq> user_id u then (Failure 403 ''Not authorized'', s)
          else if status doc \<noteq> offer_sent then (Failure 400 ''Project already processed'', s)
          else
            let doc1 = doc\<lparr> agreedBudget := Some (nullish (b_agreedBudget b) (budget doc)),
                            agreedDeadline := Some (nullish (b_agreedDeadline b) (deadline doc)),
                            agreedTimeline := or_empty_trim (b_agreedTimeline b),
                            lockedAt := Some (now e),
                            status := accepted \<rparr>;
                s1 = save_project s p doc1
            in case createNotification e s1 (clientId doc1) project_accepted ''Project Accepted'' p of
                 Inl msg \<Rightarrow> (Failure 500 msg, s1)
               | Inr s2 \<Rightarrow> (Success 200 doc1, s2))"

definition reject_handler :: "env \<Rightarrow> db \<Rightarrow> pid \<Rightarrow> req_user \<Rightarrow> response \<times> db" where
  "reject_handler e s p u =
     (case projects s p of
        None \<Rightarrow> (Failure 404 ''Project not found'', s)
      | Some doc \<Rightarrow>
          if workerId doc \<noteq> user_id u then (Failure 403 ''Not authorized'', s)
          else if status doc \<noteq> offer_sent then (Failure 400 ''Project already processed'', s)
          else
            let doc1 = doc\<lparr> status := rejected \<rparr>;
                s1 = save_project s p doc1
            in case createNotification e s1 (clientId doc1) project_rejected ''Project Rejected'' p of
                 Inl msg \<Rightarrow> (Failure 500 msg, s1)
               | Inr s2 \<Rightarrow> (Success 200 doc1, s2))"

definition advance_payment_handler :: "env \<Rightarrow> db \<Rightarrow> pid \<Rightarrow> req_user \<Rightarrow> response \<times> db" where
  "advance_payment_handler e s p u =
     (case projects s p of
        None \<Rightarrow> (Failure 404 ''Project not found'', s)
      | Some doc \<Rightarrow>
          if clientId doc \<noteq> user_id u then (Failure 403 ''Not authorized'', s)
          else if status doc \<notin> set [accepted, pending_advance]
          then (Failure 400 ''Invalid status for advance payment'', s)
          else
            let total = or_number (agreedBudget doc) (budget doc);
                amount = Math_round (total * (1 / 10));
                s1 = Transaction_create s
                       \<lparr> tx_escrowProjectId = p, tx_kind = tx_advance_payment, tx_amount = amount,
                         tx_currency = ''INR'', tx_fromUserId = Some (user_id u), tx_toUserId = None,
                         tx_state = tx_completed, tx_paymentGatewayRef = Some (now e),
                         tx_metadata = ''10% advance'' \<rparr>;
                doc1 = doc\<lparr> advanceAmount := amount, advancePaidAt := Some (now e),
                            status := in_progress, progressPercent := 50 \<rparr>;
                s2 = save_project s1 p doc1
            in case createNotification e s2 (workerId doc1) advance_paid ''Advance Payment Received'' p of
                 Inl msg \<Rightarrow> (Failure 500 msg, s2)
               | Inr s3 \<Rightarrow> (Success 200 doc1, s3))"

record progress_body =
  b_progressPercent :: "number option"
  b_milestones :: "milestone list option"

definition progress_handler :: "db \<Rightarrow> pid \<Rightarrow> req_user \<Rightarrow> progress_body \<Rightarrow> response \<times> db" where
  "progress_handler s p u b =
     (case projects s p of
        None \<Rightarrow> (Failure 404 ''Project not found'', s)
      | Some doc \<Rightarrow>
          if workerId doc \<noteq> user_id u then (Failure 403 ''Not authorized'', s)
          else
            let doc1 = (case b_progressPercent b of
                          None \<Rightarrow> doc
                        | Some x \<Rightarrow> doc\<lparr> progressPercent := min 100 (max 0 x) \<rparr>);
                doc2 = (case b_milestones b of
                          None \<Rightarrow> doc1
                        | Some ms \<Rightarrow> doc1\<lparr> milestones := ms \<rparr>)
            in if list_all valid_milestone (case b_milestones b of None \<Rightarrow> [] | Some ms \<Rightarrow> ms)
               then (Success 200 doc2, save_project s p doc2)
               else (Failure 500 ''EscrowProject validation failed'', s))"

definition complete_handler :: "env \<Rightarrow> db \<Rightarrow> pid \<Rightarrow> req_user \<Rightarrow> response \<times> db" where
  "complete_handler e s p u =
     (case projects s p of
        None \<Rightarrow> (Failure 404 ''Project not found'', s)
      | Some doc \<Rightarrow>
          if workerId doc \<noteq> user_id u then (Failure 403 ''Not authorized'', s)
          else if status doc \<notin> set [in_progress, mid_level]
          then (Failure 400 ''Invalid status to complete'', s)
          else
            let doc1 = doc\<lparr> status := completed, progressPercent := 100 \<rparr>;
                s1 = save_project s p doc1
            in case createNotification e s1 (clientId doc1) final_payment_required ''Project Completed'' p of
                 Inl msg \<Rightarrow> (Failure 500 msg, s1)
               | Inr s2 \<Rightarrow> (Success 200 doc1, s2))"

definition final_payment_handler :: "env \<Rightarrow> db \<Rightarrow> pid \<Rightarrow> req_user \<Rightarrow> response \<times> db" where
  "final_payment_handler e s p u =
     (case projects s p of
        None \<Rightarrow> (Failure 404 ''Project not found'', s)
      | Some doc \<Rightarrow>
          if clientId doc \<noteq> user_id u then (Failure 403 ''Not authorized'', s)
          else if status doc \<noteq> completed then (Failure 400 ''Project not completed yet'', s)
          else
            let total = or_number (agreedBudget doc) (budget doc);
                amount = Math_round (total * (9 / 10));
                s1 = Transaction_create s
                       \<lparr> tx_escrowProjectId = p, tx_kind = tx_final_payment, tx_amount = amount,
                         tx_currency = ''INR'', tx_fromUserId = Some (user_id u), tx_toUserId = None,
                         tx_state = tx_completed, tx_paymentGatewayRef = Some (now e),
                         tx_metadata = ''90% final payment'' \<rparr>;
                doc1 = doc\<lparr> finalAmount := amount, finalPaidAt := Some (now e) \<rparr>;
                s2 = save_project s1 p doc1
            in case createNotification e s2 (workerId doc1) final_payment_required ''Final Payment Received'' p of
                 Inl msg \<Rightarrow> (Failure 500 msg, s2)
               | Inr s3 \<Rightarrow> (Success 200 doc1, s3))"

record rate_body =
  b_rating :: js_value
  b_review :: "string option"

text \<open>\<^verbatim>\<open>!rating || rating < 1 || rating > 5\<close>\<close>

definition rating_invalid :: "js_value \<Rightarrow> bool" where
  "rating_invalid v = (\<not> truthy v \<or> js_lt (to_number v) 1 \<or> js_gt (to_number v) 5)"

text \<open>
  The reviews of a worker, their sum and the card written from them
  (\<^verbatim>\<open>WorkerReview.find\<close>, \<^verbatim>\<open>reduce\<close>, and the two assignments to the card).
\<close>

definition reviews_of :: "db \<Rightarrow> uid \<Rightarrow> worker_review list" where
  "reviews_of s w = filter (\<lambda>r. r_workerId r = w) (reviews s)"

definition update_card :: "db \<Rightarrow> uid \<Rightarrow> db" where
  "update_card s w =
     (case cards s w of
        None \<Rightarrow> s
      | Some crd \<Rightarrow>
          let rs = reviews_of s w;
              total = foldl (\<lambda>acc r. acc + r_rating r) 0 rs
          in s\<lparr>cards := (cards s)(w \<mapsto>
               crd\<lparr> c_rating := (if length rs \<noteq> 0 then total / of_nat (length rs) else 0),
                     c_ratingCount := length rs \<rparr>)\<rparr>)"

text \<open>
  \<^verbatim>\<open>WorkerReview.create\<close> stores \<^verbatim>\<open>Number(rating)\<close>. The review schema has
  \<^verbatim>\<open>rating: { type: Number, required: true, min: 1, max: 5 }\<close>: a rating that converts
  to \<^verbatim>\<open>NaN\<close> fails it, the create throws before anything is written, and the
  \<^verbatim>\<open>catch\<close> answers 500 with the message of Mongoose's error, of which the model keeps
  the beginning. A number that passed the guard is within the schema's range.
\<close>

definition rate_handler :: "env \<Rightarrow> db \<Rightarrow> pid \<Rightarrow> req_user \<Rightarrow> rate_body \<Rightarrow> response \<times> db" where
  "rate_handler e s p u b =
     (case projects s p of
        None \<Rightarrow> (Failure 404 ''Project not found'', s)
      | Some doc \<Rightarrow>
          if clientId doc \<noteq> user_id u then (Failure 403 ''Not authorized'', s)
          else if status doc \<noteq> completed \<or> finalPaidAt doc = None
          then (Failure 400 ''Rate only after final payment'', s)
          else if rating_invalid (b_rating b) then (Failure 400 ''Rating 1-5 required'', s)
          else
            case to_number (b_rating b) of
              None \<Rightarrow> (Failure 500 ''WorkerReview validation failed'', s)
            | Some r \<Rightarrow>
                let s1 = s\<lparr>reviews := reviews s @
                           [\<lparr> r_workerId = workerId doc, r_clientId = user_id u,
                              r_escrowProjectId = p, r_rating = r,
                              r_review = or_empty_trim (b_review b) \<rparr>]\<rparr>;
                    total = or_number (agreedBudget doc) (budget doc);
                    commissionPercent = or_number (Some (platformCommissionPercent doc)) 5;
                    commission = Math_round (total * (commissionPercent / 100));
                    doc1 = doc\<lparr> rating := Some r, review := or_empty_trim (b_review b),
                                ratedAt := Some (now e),
                                platformCommissionAmount := commission,
                                workerPayoutAmount := total - commission,
                                workerPayoutAt := Some (now e),
                                status := completed_released \<rparr>;
                    s2 = save_project s1 p doc1;
                    s3 = Transaction_create s2
                           \<lparr> tx_escrowProjectId = p, tx_kind = tx_platform_commission,
                             tx_amount = platformCommissionAmount doc1,
                             tx_currency = ''INR'', tx_fromUserId = None, tx_toUserId = None,
                             tx_state = tx_completed, tx_paymentGatewayRef = None,
                             tx_metadata = ''Platform commission'' \<rparr>;
                    s4 = Transaction_create s3
                           \<lparr> tx_escrowProjectId = p, tx_kind = tx_worker_payout,
                             tx_amount = workerPayoutAmount doc1,
                             tx_currency = ''INR'', tx_fromUserId = None,
                             tx_toUserId = Some (workerId doc1),
                             tx_state = tx_completed, tx_paymentGatewayRef = None,
                             tx_metadata = ''Payment released to worker'' \<rparr>;
                    s5 = update_card s4 (workerId doc1)
                in case createNotification e s5 (workerId doc1) payment_released ''Payment Released'' p of
                     Inl msg \<Rightarrow> (Failure 500 msg, s5)
                   | Inr s6 \<Rightarrow> (Success 200 doc1, s6))"

subsection \<open>The client repeating the final payment\<close>

text \<open>
  One call of the final-payment handler per request environment, each on the
  collections the previous call left. The responses are returned in order.
\<close>

fun final_payment_repeated :: "env list \<Rightarrow> db \<Rightarrow> pid \<Rightarrow> req_user \<Rightarrow> response list \<times> db" where
  "final_payment_repeated [] s p u = ([], s)"
| "final_payment_repeated (e # es) s p u =
     (case final_payment_handler e s p u of
        (r, s1) \<Rightarrow> (case final_payment_repeated es s1 p u of (rs, s2) \<Rightarrow> (r # rs, s2)))"

subsection \<open>Reachable collections\<close>

text \<open>
  The collections the escrow routes can produce, starting with no project stored.
  Every request of every authenticated user, in any environment, is a step.
\<close>

inductive reachable :: "db \<Rightarrow> bool" where
  start: "projects s = Map.empty \<Longrightarrow> reachable s"
| create_offer: "reachable s \<Longrightarrow> reachable (snd (create_offer_handler e s u ob))"
| accept: "reachable s \<Longrightarrow> reachable (snd (accept_handler e s p u ab))"
| reject: "reachable s \<Longrightarrow> reachable (snd (reject_handler e s p u))"
| advance_payment: "reachable s \<Longrightarrow> reachable (snd (advance_payment_handler e s p u))"
| progress: "reachable s \<Longrightarrow> reachable (snd (progress_handler s p u pb))"
| complete: "reachable s \<Longrightarrow> reachable (snd (complete_handler e s p u))"
| final_payment: "reachable s \<Longrightarrow> reachable (snd (final_payment_handler e s p u))"
| rate: "reachable s \<Longrightarrow> reachable (snd (rate_handler e s p u rb))"

text \<open>
  The total the money computations use (\<^verbatim>\<open>project.agreedBudget || project.budget\<close>)
  and the commission percentage (\<^verbatim>\<open>project.platformCommissionPercent || 5\<close>).
\<close>

definition total_of :: "project \<Rightarrow> number" where
  "total_of doc = or_number (agreedBudget doc) (budget doc)"

definition commission_percent_of :: "project \<Rightarrow> number" where
  "commission_percent_of doc = or_number (Some (platformCommissionPercent doc)) 5"

text \<open>What the handlers keep true of every stored project.\<close>

definition money_inv :: "project \<Rightarrow> bool" where
  "money_inv doc =
     ((status doc \<in> {in_progress, mid_level, completed, completed_released} \<longrightarrow>
         advanceAmount doc = Math_round (total_of doc * (1 / 10)))
      \<and> (finalPaidAt doc \<noteq> None \<longrightarrow> finalAmount doc = Math_round (total_of doc * (9 / 10)))
      \<and> (status doc = offer_sent \<longrightarrow> finalPaidAt doc = None)
      \<and> (finalPaidAt doc \<noteq> None \<longrightarrow> status doc = completed \<or> status doc = completed_released)
      \<and> (status doc = completed_released \<longrightarrow>
           finalPaidAt doc \<noteq> None
           \<and> platformCommissionAmount doc = Math_round (total_of doc * (commission_percent_of doc / 100))
           \<and> workerPayoutAmount doc = total_of doc - platformCommissionAmount doc)
      \<and> platformCommissionPercent doc = 5)"

definition all_projects :: "(project \<Rightarrow> bool) \<Rightarrow> db \<Rightarrow> bool" where
  "all_projects P s = (\<forall>p doc. projects s p = Some doc \<longrightarrow> P doc)"

subsection \<open>The specification's reading of the amounts\<close>

text \<open>
  The specification computes the total with a null check,
  \<^verbatim>\<open>agreedBudget ?? budget\<close>, and rounds halves away from zero.
\<close>

definition spec_total :: "project \<Rightarrow> number" where
  "spec_total doc = nullish (agreedBudget doc) (budget doc)"

definition round_half_away :: "number \<Rightarrow> number" where
  "round_half_away x = (if 0 \<le> x then of_int \<lfloor>x + 1 / 2\<rfloor> else - of_int \<lfloor>- x + 1 / 2\<rfloor>)"

subsection \<open>A client, a worker and one project through its lifecycle\<close>

definition client0 :: req_user where
  "client0 = \<lparr> user_id = 1, user_name = ''Asha'' \<rparr>"

definition worker0 :: req_user where
  "worker0 = \<lparr> user_id = 2, user_name = ''Ravi'' \<rparr>"

definition env_ok :: env where
  "env_ok = \<lparr> now = 1000, notification_error = None, email_fails = False, push_fails = False \<rparr>"

definition env_later :: env where
  "env_later = \<lparr> now = 2000, notification_error = None, email_fails = False, push_fails = False \<rparr>"

definition env_down :: env where
  "env_down = \<lparr> now = 1000, notification_error = Some ''notifications unavailable'',
                 email_fails = True, push_fails = True \<rparr>"

definition db0 :: db where
  "db0 = \<lparr> projects = Map.empty, next_project = 0, ledger = [], reviews = [],
           cards = [2 \<mapsto> \<lparr> c_rating = 0, c_ratingCount = 0 \<rparr>],
           users = [1 \<mapsto> \<lparr> u_name = ''Asha'', u_email = ''asha@example.org'' \<rparr>,
                    2 \<mapsto> \<lparr> u_name = ''Ravi'', u_email = ''ravi@example.org'' \<rparr>],
           notifications = [], console = [] \<rparr>"

text \<open>A stored project of client 1 and worker 2 with the given budget.\<close>

definition offer_doc :: "number \<Rightarrow> project" where
  "offer_doc b = new_project 1 2 ''Logo'' [] b 5000"

definition db_with :: "project \<Rightarrow> db" where
  "db_with doc = db0\<lparr> projects := [0 \<mapsto> doc], next_project := 1 \<rparr>"

definition offer0 :: offer_body where
  "offer0 = \<lparr> b_workerId = Some 2, b_title = Some ''Logo'', b_description = None,
              b_budget = Some 25, b_deadline = Some 5000 \<rparr>"

text \<open>The worker accepts the proposed terms, or names another agreed budget.\<close>

definition accept0 :: accept_body where
  "accept0 = \<lparr> b_agreedBudget = None, b_agreedDeadline = None, b_agreedTimeline = None \<rparr>"

definition accept_with :: "number \<Rightarrow> accept_body" where
  "accept_with a = \<lparr> b_agreedBudget = Some a, b_agreedDeadline = None, b_agreedTimeline = None \<rparr>"

definition rate0 :: rate_body where
  "rate0 = \<lparr> b_rating = js_number 5, b_review = Some ''Good work'' \<rparr>"

text \<open>A rate request whose rating is the string \<^verbatim>\<open>'abc'\<close>.\<close>

definition rate_abc :: rate_body where
  "rate_abc = \<lparr> b_rating = js_not_a_number, b_review = None \<rparr>"

text \<open>
  A whole lifecycle of the offer \<open>offer0\<close>, the worker accepting with the body \<open>ab\<close>:
  the collections after each request.
\<close>

definition after_offer :: db where
  "after_offer = snd (create_offer_handler env_ok db0 client0 offer0)"

definition after_accept :: "accept_body \<Rightarrow> db" where
  "after_accept ab = snd (accept_handler env_ok after_offer 0 worker0 ab)"

definition after_advance :: "accept_body \<Rightarrow> db" where
  "after_advance ab = snd (advance_payment_handler env_ok (after_accept ab) 0 client0)"

definition after_complete :: "accept_body \<Rightarrow> db" where
  "after_complete ab = snd (complete_handler env_ok (after_advance ab) 0 worker0)"

definition after_final :: "accept_body \<Rightarrow> db" where
  "after_final ab = snd (final_payment_handler env_ok (after_complete ab) 0 client0)"

definition after_rate :: "accept_body \<Rightarrow> db" where
  "after_rate ab = snd (rate_handler env_ok (after_final ab) 0 client0 rate0)"

text \<open>
  The stored project along that lifecycle, with agreed budget \<open>a\<close>: once completed
  (advance \<open>adv\<close> paid), once the final amount \<open>fin\<close> is paid, and once released with
  commission \<open>com\<close> and payout \<open>pay\<close>.
\<close>

definition completed_doc :: "number \<Rightarrow> number \<Rightarrow> project" where
  "completed_doc a adv = (offer_doc 25)\<lparr> agreedBudget := Some a, agreedDeadline := Some 5000,
       agreedTimeline := [], lockedAt := Some 1000, advanceAmount := adv,
       advancePaidAt := Some 1000, status := completed, progressPercent := 100 \<rparr>"

definition paid_doc :: "number \<Rightarrow> number \<Rightarrow> number \<Rightarrow> project" where
  "paid_doc a adv fin = (completed_doc a adv)\<lparr> finalAmount := fin, finalPaidAt := Some 1000 \<rparr>"

definition released_doc :: "number \<Rightarrow> number \<Rightarrow> number \<Rightarrow> number \<Rightarrow> number \<Rightarrow> project" where
  "released_doc a adv fin com pay = (paid_doc a adv fin)\<lparr> rating := Some 5, review := ''Good work'',
       ratedAt := Some 1000, platformCommissionAmount := com, workerPayoutAmount := pay,
       workerPayoutAt := Some 1000, status := completed_released \<rparr>"

text \<open>An offer that names the client as the worker.\<close>

definition self_offer :: offer_body where
  "self_offer = \<lparr> b_workerId = Some 1, b_title = Some ''Logo'', b_description = None,
                  b_budget = Some 25, b_deadline = Some 5000 \<rparr>"


definition progress0 :: progress_body where
  "progress0 = \<lparr> b_progressPercent = Some 120,
       b_milestones = Some [\<lparr> m_title = ''Sketch'', m_description = [], m_progressPercent = 100,
                              m_completedAt = None \<rparr>] \<rparr>"

section \<open>Arithmetic of the amounts\<close>

lemma floor_numeral_div:
  "\<lfloor>(numeral a :: rat) / numeral b\<rfloor> = numeral a div numeral b"
  by (metis floor_divide_of_int_eq of_int_numeral)

lemma floor_neg_numeral_div:
  "\<lfloor>- ((numeral a :: rat) / numeral b)\<rfloor> = - numeral a div numeral b"
  by (metis floor_divide_of_int_eq of_int_numeral of_int_minus minus_divide_left)

lemma floor_one_numeral_div: "\<lfloor>(1 :: rat) / numeral b\<rfloor> = 1 div numeral b"
  by (metis floor_divide_of_int_eq of_int_1 of_int_numeral)

lemmas floor_eval = floor_numeral_div floor_neg_numeral_div floor_one_numeral_div

lemma Math_round_nonneg: "0 \<le> x \<Longrightarrow> Math_round x = round_half_away x"
  by (simp add: Math_round_def round_half_away_def)





lemma or_number_nullish: "a \<noteq> Some 0 \<Longrightarrow> or_number a b = nullish a b"
  by (simp add: or_number_def nullish_def split: option.splits)

lemma or_number_zero: "or_number (Some 0) b = b"
  by (simp add: or_number_def)

section \<open>Evaluating the handlers\<close>

lemmas doc_defs = offer_doc_def new_project_def completed_doc_def paid_doc_def released_doc_def

lemmas fixture_defs = client0_def worker0_def env_ok_def env_later_def env_down_def db0_def
  db_with_def offer0_def accept0_def accept_with_def rate0_def rate_abc_def doc_defs

lemmas lifecycle_defs = after_offer_def after_accept_def after_advance_def after_complete_def
  after_final_def after_rate_def

lemmas handler_defs = create_offer_handler_def accept_handler_def reject_handler_def
  advance_payment_handler_def progress_handler_def complete_handler_def
  final_payment_handler_def rate_handler_def

lemmas step_defs = createNotification_def save_project_def Transaction_create_def Let_def

lemmas eval_defs = or_number_def nullish_def Math_round_def or_empty_trim_def trim_def is_space_def
  offer_invalid_def send_offer_email_def send_offer_push_def rating_invalid_def
  js_number_def js_undefined_def js_not_a_number_def js_lt_def js_gt_def
  update_card_def reviews_of_def floor_eval



lemma after_rate_project: "projects (after_rate accept0) 0 = Some (released_doc 25 3 23 1 24)"
  by (simp add: lifecycle_defs handler_defs step_defs eval_defs fixture_defs)

lemma after_rate_zero: "projects (after_rate (accept_with 0)) 0 = Some (released_doc 0 3 23 1 24)"
  by (simp add: lifecycle_defs handler_defs step_defs eval_defs fixture_defs)

lemma after_rate_negative:
  "projects (after_rate (accept_with (- 25))) 0 = Some (released_doc (- 25) (- 2) (- 22) (- 1) (- 24))"
  by (simp add: lifecycle_defs handler_defs step_defs eval_defs fixture_defs)



lemma reachable_after_rate: "reachable (after_rate ab)"
  unfolding lifecycle_defs
  by (intro reachable.rate reachable.final_payment reachable.complete reachable.advance_payment
      reachable.accept reachable.create_offer reachable.start) (simp add: db0_def)

section \<open>What the handlers keep true of the stored amounts\<close>

lemma money_inv_new_project: "money_inv (new_project c w t d b dl)"
  by (simp add: money_inv_def new_project_def)

lemma create_offer_keeps:
  "all_projects money_inv s \<Longrightarrow> all_projects money_inv (snd (create_offer_handler e s u b))"
  by (auto simp: all_projects_def create_offer_handler_def step_defs send_offer_email_def
      send_offer_push_def money_inv_new_project split: option.splits)

lemma accept_keeps:
  "all_projects money_inv s \<Longrightarrow> all_projects money_inv (snd (accept_handler e s p u b))"
  by (auto simp: all_projects_def accept_handler_def step_defs money_inv_def total_of_def
      commission_percent_of_def split: option.splits if_splits)

lemma reject_keeps:
  "all_projects money_inv s \<Longrightarrow> all_projects money_inv (snd (reject_handler e s p u))"
  by (auto simp: all_projects_def reject_handler_def step_defs money_inv_def total_of_def
      commission_percent_of_def split: option.splits if_splits)

lemma advance_payment_keeps:
  assumes "all_projects money_inv s"
  shows "all_projects money_inv (snd (advance_payment_handler e s p u))"
proof (cases "projects s p")
  case None
  then show ?thesis using assms by (simp add: advance_payment_handler_def)
next
  case (Some doc)
  then have inv: "money_inv doc" using assms by (simp add: all_projects_def)
  have paid: "status doc = accepted \<or> status doc = pending_advance \<Longrightarrow>
      money_inv (doc\<lparr> advanceAmount := Math_round (or_number (agreedBudget doc) (budget doc) * (1 / 10)),
                        advancePaidAt := Some (now e), status := in_progress,
                        progressPercent := 50 \<rparr>)"
    using inv by (auto simp: money_inv_def total_of_def commission_percent_of_def)
  show ?thesis
    using assms Some paid
    by (auto simp: all_projects_def advance_payment_handler_def step_defs
        split: option.splits if_splits)
qed

lemma progress_keeps:
  "all_projects money_inv s \<Longrightarrow> all_projects money_inv (snd (progress_handler s p u b))"
  by (auto simp: all_projects_def progress_handler_def step_defs money_inv_def total_of_def
      commission_percent_of_def split: option.splits if_splits)

lemma complete_keeps:
  "all_projects money_inv s \<Longrightarrow> all_projects money_inv (snd (complete_handler e s p u))"
  by (auto simp: all_projects_def complete_handler_def step_defs money_inv_def total_of_def
      commission_percent_of_def split: option.splits if_splits)

lemma final_payment_keeps:
  "all_projects money_inv s \<Longrightarrow> all_projects money_inv (snd (final_payment_handler e s p u))"
  by (auto simp: all_projects_def final_payment_handler_def step_defs money_inv_def total_of_def
      commission_percent_of_def split: option.splits if_splits)

lemma rate_keeps:
  "all_projects money_inv s \<Longrightarrow> all_projects money_inv (snd (rate_handler e s p u b))"
  by (auto simp: all_projects_def rate_handler_def step_defs update_card_def money_inv_def
      total_of_def commission_percent_of_def split: option.splits if_splits)

lemma reachable_money_inv: "reachable s \<Longrightarrow> all_projects money_inv s"
proof (induction rule: reachable.induct)
  case (start s)
  then show ?case by (simp add: all_projects_def)
qed (simp_all add: create_offer_keeps accept_keeps reject_keeps advance_payment_keeps
      progress_keeps complete_keeps final_payment_keeps rate_keeps)

lemma reachable_project:
  "reachable s \<Longrightarrow> projects s p = Some doc \<Longrightarrow> money_inv doc"
  using reachable_money_inv by (simp add: all_projects_def)

section \<open>The amounts of a released project\<close>

text \<open>
  C1, as the specification states it: with \<open>total = agreedBudget ?? budget\<close> and
  halves rounded away from zero, a released project has
  \<open>advanceAmount = round (total * 0.10)\<close>. The code computes the total with
  \<^verbatim>\<open>||\<close> and rounds with \<^verbatim>\<open>Math.round\<close>. A worker who accepts with an agreed
  budget of 0 on a proposed budget of 25 leaves a released project whose advance is 3,
  where the specification's formula gives 0; one who accepts with \<open>- 25\<close> leaves an
  advance of \<open>- 2\<close>, where rounding the half away from zero gives \<open>- 3\<close>.
\<close>

theorem released_amounts_counterexample:
  "projects (after_rate (accept_with 0)) 0 = Some (released_doc 0 3 23 1 24)
   \<and> status (released_doc 0 3 23 1 24) = completed_released
   \<and> advanceAmount (released_doc 0 3 23 1 24) = 3
   \<and> round_half_away (spec_total (released_doc 0 3 23 1 24) * (1 / 10)) = 0
   \<and> projects (after_rate (accept_with (- 25))) 0 = Some (released_doc (- 25) (- 2) (- 22) (- 1) (- 24))
   \<and> status (released_doc (- 25) (- 2) (- 22) (- 1) (- 24)) = completed_released
   \<and> advanceAmount (released_doc (- 25) (- 2) (- 22) (- 1) (- 24)) = - 2
   \<and> round_half_away (spec_total (released_doc (- 25) (- 2) (- 22) (- 1) (- 24)) * (1 / 10)) = - 3"
  by (simp add: after_rate_zero after_rate_negative doc_defs spec_total_def nullish_def
      round_half_away_def floor_eval)

text \<open>
  C1, amended: for every released project that the escrow routes can produce and
  whose agreed budget is not 0, with \<open>total = agreedBudget ?? budget\<close>: the advance is
  \<open>Math.round (total * 0.10)\<close>, the final amount \<open>Math.round (total * 0.90)\<close>, the
  commission \<open>Math.round (total * (platformCommissionPercent / 100))\<close>, the payout
  the total less the commission, so commission and payout add up to the total.
  \<open>Math.round\<close> takes a half towards plus infinity; on a total that is not negative
  this is rounding the half away from zero.
\<close>

theorem released_amounts:
  assumes "reachable s" and "projects s p = Some doc"
    and "status doc = completed_released" and "agreedBudget doc \<noteq> Some 0"
  shows "advanceAmount doc = Math_round (spec_total doc * (1 / 10))
    \<and> finalAmount doc = Math_round (spec_total doc * (9 / 10))
    \<and> platformCommissionAmount doc
        = Math_round (spec_total doc * (platformCommissionPercent doc / 100))
    \<and> workerPayoutAmount doc = spec_total doc - platformCommissionAmount doc
    \<and> platformCommissionAmount doc + workerPayoutAmount doc = spec_total doc
    \<and> (0 \<le> spec_total doc \<longrightarrow>
         advanceAmount doc = round_half_away (spec_total doc * (1 / 10))
         \<and> finalAmount doc = round_half_away (spec_total doc * (9 / 10))
         \<and> platformCommissionAmount doc
             = round_half_away (spec_total doc * (platformCommissionPercent doc / 100)))"
proof -
  have inv: "money_inv doc" using assms(1,2) by (rule reachable_project)
  have total: "total_of doc = spec_total doc"
    using assms(4) by (simp add: total_of_def spec_total_def or_number_nullish)
  have pct: "platformCommissionPercent doc = 5" using inv by (simp add: money_inv_def)
  have cp: "commission_percent_of doc = platformCommissionPercent doc"
    by (simp add: commission_percent_of_def or_number_def pct)
  have adv: "advanceAmount doc = Math_round (spec_total doc * (1 / 10))"
    using inv assms(3) by (simp add: money_inv_def total)
  have fin: "finalAmount doc = Math_round (spec_total doc * (9 / 10))"
    using inv assms(3) by (simp add: money_inv_def total)
  have com: "platformCommissionAmount doc
      = Math_round (spec_total doc * (platformCommissionPercent doc / 100))"
    using inv assms(3) by (simp add: money_inv_def total cp)
  have pay: "workerPayoutAmount doc = spec_total doc - platformCommissionAmount doc"
    using inv assms(3) by (simp add: money_inv_def total)
  have away: "0 \<le> spec_total doc \<Longrightarrow>
      advanceAmount doc = round_half_away (spec_total doc * (1 / 10))
      \<and> finalAmount doc = round_half_away (spec_total doc * (9 / 10))
      \<and> platformCommissionAmount doc
          = round_half_away (spec_total doc * (platformCommissionPercent doc / 100))"
    by (simp add: adv fin com pct Math_round_nonneg)
  from adv fin com pay away show ?thesis by simp
qed

theorem released_amounts_witness:
  "reachable (after_rate accept0)
   \<and> projects (after_rate accept0) 0 = Some (released_doc 25 3 23 1 24)
   \<and> status (released_doc 25 3 23 1 24) = completed_released
   \<and> agreedBudget (released_doc 25 3 23 1 24) \<noteq> Some 0
   \<and> spec_total (released_doc 25 3 23 1 24) = 25
   \<and> advanceAmount (released_doc 25 3 23 1 24) = round_half_away (25 * (1 / 10))
   \<and> finalAmount (released_doc 25 3 23 1 24) = round_half_away (25 * (9 / 10))
   \<and> platformCommissionAmount (released_doc 25 3 23 1 24) = round_half_away (25 * (5 / 100))
   \<and> platformCommissionAmount (released_doc 25 3 23 1 24)
       + workerPayoutAmount (released_doc 25 3 23 1 24) = 25"
proof -
  have st: "status (released_doc 25 3 23 1 24) = completed_released"
    and ab: "agreedBudget (released_doc 25 3 23 1 24) \<noteq> Some 0"
    and tot: "spec_total (released_doc 25 3 23 1 24) = 25"
    and pct: "platformCommissionPercent (released_doc 25 3 23 1 24) = 5"
    by (simp_all add: doc_defs spec_total_def nullish_def)
  show ?thesis
    using released_amounts [OF reachable_after_rate after_rate_project st ab]
    by (simp add: reachable_after_rate after_rate_project st ab tot pct)
qed

section \<open>Advance and final amount against the total\<close>




section \<open>An agreed budget of zero\<close>

text \<open>
  C10: the total is \<^verbatim>\<open>agreedBudget || budget\<close>, so a project locked at an agreed
  budget of 0 has every derived amount computed from the proposed budget: in every
  collection the routes can produce, such a project has the proposed budget as its
  total, its advance (once paid) is a tenth of the proposed budget, its final amount
  (once paid) nine tenths, and its commission and payout (once released) are taken from
  the proposed budget.
\<close>

theorem zero_agreed_budget_uses_budget:
  assumes "reachable s" and "projects s p = Some doc" and "agreedBudget doc = Some 0"
  shows "total_of doc = budget doc
    \<and> (status doc \<in> {in_progress, mid_level, completed, completed_released} \<longrightarrow>
         advanceAmount doc = Math_round (budget doc * (1 / 10)))
    \<and> (finalPaidAt doc \<noteq> None \<longrightarrow> finalAmount doc = Math_round (budget doc * (9 / 10)))
    \<and> (status doc = completed_released \<longrightarrow>
         platformCommissionAmount doc
           = Math_round (budget doc * (commission_percent_of doc / 100))
         \<and> workerPayoutAmount doc = budget doc - platformCommissionAmount doc)"
proof -
  have inv: "money_inv doc" using assms(1,2) by (rule reachable_project)
  have total: "total_of doc = budget doc"
    using assms(3) by (simp add: total_of_def or_number_zero)
  from inv show ?thesis unfolding money_inv_def total by simp
qed

theorem zero_agreed_budget_uses_budget_witness:
  "reachable (after_rate (accept_with 0))
   \<and> projects (after_rate (accept_with 0)) 0 = Some (released_doc 0 3 23 1 24)
   \<and> agreedBudget (released_doc 0 3 23 1 24) = Some 0
   \<and> budget (released_doc 0 3 23 1 24) = 25
   \<and> status (released_doc 0 3 23 1 24) = completed_released
   \<and> finalPaidAt (released_doc 0 3 23 1 24) \<noteq> None
   \<and> total_of (released_doc 0 3 23 1 24) = 25
   \<and> advanceAmount (released_doc 0 3 23 1 24) = Math_round (25 * (1 / 10))
   \<and> finalAmount (released_doc 0 3 23 1 24) = Math_round (25 * (9 / 10))
   \<and> platformCommissionAmount (released_doc 0 3 23 1 24) = Math_round (25 * (5 / 100))
   \<and> workerPayoutAmount (released_doc 0 3 23 1 24) = 25 - 1"
proof -
  have ab: "agreedBudget (released_doc 0 3 23 1 24) = Some 0"
    and b: "budget (released_doc 0 3 23 1 24) = 25"
    and st: "status (released_doc 0 3 23 1 24) = completed_released"
    and fp: "finalPaidAt (released_doc 0 3 23 1 24) \<noteq> None"
    and cp: "commission_percent_of (released_doc 0 3 23 1 24) = 5"
    and com: "platformCommissionAmount (released_doc 0 3 23 1 24) = 1"
    by (simp_all add: doc_defs commission_percent_of_def or_number_def)
  have r: "Math_round (5 / 4) = 1" by (simp add: Math_round_def floor_eval)
  show ?thesis
    using zero_agreed_budget_uses_budget [OF reachable_after_rate after_rate_zero ab]
    by (simp add: reachable_after_rate after_rate_zero ab b st fp cp com r)
qed

section \<open>Authorization\<close>

text \<open>
  C3: in each of the seven transitions on a stored project, an authenticated user
  who is not the required party (the worker for accept, reject, progress and complete,
  the client for advance-payment, final-payment and rate) is answered 403
  \<open>Not authorized\<close> and the collections are unchanged. The answer differs from that
  of a failed precondition: the required party is answered 400 when the
  project is in the wrong status.
\<close>

theorem wrong_actor_is_refused:
  assumes "projects s p = Some doc"
  shows "(workerId doc \<noteq> user_id u \<longrightarrow>
            accept_handler e s p u ab = (Failure 403 ''Not authorized'', s)
          \<and> reject_handler e s p u = (Failure 403 ''Not authorized'', s)
          \<and> progress_handler s p u pb = (Failure 403 ''Not authorized'', s)
          \<and> complete_handler e s p u = (Failure 403 ''Not authorized'', s))
       \<and> (clientId doc \<noteq> user_id u \<longrightarrow>
            advance_payment_handler e s p u = (Failure 403 ''Not authorized'', s)
          \<and> final_payment_handler e s p u = (Failure 403 ''Not authorized'', s)
          \<and> rate_handler e s p u rb = (Failure 403 ''Not authorized'', s))
       \<and> (workerId doc = user_id u \<and> status doc \<noteq> offer_sent \<longrightarrow>
            accept_handler e s p u ab = (Failure 400 ''Project already processed'', s)
          \<and> reject_handler e s p u = (Failure 400 ''Project already processed'', s))
       \<and> (workerId doc = user_id u \<and> status doc \<notin> {in_progress, mid_level} \<longrightarrow>
            complete_handler e s p u = (Failure 400 ''Invalid status to complete'', s))
       \<and> (clientId doc = user_id u \<and> status doc \<notin> {accepted, pending_advance} \<longrightarrow>
            advance_payment_handler e s p u = (Failure 400 ''Invalid status for advance payment'', s))
       \<and> (clientId doc = user_id u \<and> status doc \<noteq> completed \<longrightarrow>
            final_payment_handler e s p u = (Failure 400 ''Project not completed yet'', s)
          \<and> rate_handler e s p u rb = (Failure 400 ''Rate only after final payment'', s))"
  using assms by (simp add: handler_defs)

theorem wrong_actor_is_refused_witness:
  "projects (db_with (offer_doc 25)) 0 = Some (offer_doc 25)
   \<and> workerId (offer_doc 25) \<noteq> user_id client0
   \<and> clientId (offer_doc 25) \<noteq> user_id worker0
   \<and> accept_handler env_ok (db_with (offer_doc 25)) 0 client0 accept0
       = (Failure 403 ''Not authorized'', db_with (offer_doc 25))
   \<and> reject_handler env_ok (db_with (offer_doc 25)) 0 client0
       = (Failure 403 ''Not authorized'', db_with (offer_doc 25))
   \<and> progress_handler (db_with (offer_doc 25)) 0 client0 progress0
       = (Failure 403 ''Not authorized'', db_with (offer_doc 25))
   \<and> complete_handler env_ok (db_with (offer_doc 25)) 0 client0
       = (Failure 403 ''Not authorized'', db_with (offer_doc 25))
   \<and> advance_payment_handler env_ok (db_with (offer_doc 25)) 0 worker0
       = (Failure 403 ''Not authorized'', db_with (offer_doc 25))
   \<and> final_payment_handler env_ok (db_with (offer_doc 25)) 0 worker0
       = (Failure 403 ''Not authorized'', db_with (offer_doc 25))
   \<and> rate_handler env_ok (db_with (offer_doc 25)) 0 worker0 rate0
       = (Failure 403 ''Not authorized'', db_with (offer_doc 25))
   \<and> complete_handler env_ok (db_with (offer_doc 25)) 0 worker0
       = (Failure 400 ''Invalid status to complete'', db_with (offer_doc 25))
   \<and> final_payment_handler env_ok (db_with (offer_doc 25)) 0 client0
       = (Failure 400 ''Project not completed yet'', db_with (offer_doc 25))"
proof -
  have stored: "projects (db_with (offer_doc 25)) 0 = Some (offer_doc 25)"
    by (simp add: db_with_def)
  have parties: "workerId (offer_doc 25) \<noteq> user_id client0"
    "clientId (offer_doc 25) \<noteq> user_id worker0"
    "workerId (offer_doc 25) = user_id worker0" "clientId (offer_doc 25) = user_id client0"
    "status (offer_doc 25) = offer_sent"
    by (simp_all add: doc_defs client0_def worker0_def)
  have ids: "user_id client0 \<noteq> user_id worker0" "user_id worker0 \<noteq> user_id client0"
    by (simp_all add: client0_def worker0_def)
  show ?thesis
    using wrong_actor_is_refused [OF stored, of client0 env_ok accept0 progress0 rate0]
      wrong_actor_is_refused [OF stored, of worker0 env_ok accept0 progress0 rate0]
    by (simp add: stored parties ids)
qed

section \<open>Final payment\<close>

text \<open>The final-payment request of the client on a completed project, all going well.\<close>

lemma final_payment_ok:
  assumes "projects s p = Some doc" and "clientId doc = user_id u"
    and "status doc = completed" and "notification_error e = None"
  shows "fst (final_payment_handler e s p u)
           = Success 200 (doc\<lparr> finalAmount := Math_round (total_of doc * (9 / 10)),
                                finalPaidAt := Some (now e) \<rparr>)"
    and "projects (snd (final_payment_handler e s p u)) p
           = Some (doc\<lparr> finalAmount := Math_round (total_of doc * (9 / 10)),
                         finalPaidAt := Some (now e) \<rparr>)"
    and "ledger (snd (final_payment_handler e s p u)) = ledger s @
           [\<lparr> tx_escrowProjectId = p, tx_kind = tx_final_payment,
              tx_amount = Math_round (total_of doc * (9 / 10)),
              tx_currency = ''INR'', tx_fromUserId = Some (user_id u), tx_toUserId = None,
              tx_state = tx_completed, tx_paymentGatewayRef = Some (now e),
              tx_metadata = ''90% final payment'' \<rparr>]"
  using assms by (simp_all add: final_payment_handler_def step_defs total_of_def)

lemma final_payment_repeated_ok:
  assumes "projects s p = Some doc" and "clientId doc = user_id u"
    and "status doc = completed" and "\<forall>e \<in> set es. notification_error e = None"
  shows "fst (final_payment_repeated es s p u)
           = map (\<lambda>e. Success 200 (doc\<lparr> finalAmount := Math_round (total_of doc * (9 / 10)),
                                          finalPaidAt := Some (now e) \<rparr>)) es
       \<and> ledger (snd (final_payment_repeated es s p u)) = ledger s @
           map (\<lambda>e. \<lparr> tx_escrowProjectId = p, tx_kind = tx_final_payment,
                       tx_amount = Math_round (total_of doc * (9 / 10)),
                       tx_currency = ''INR'', tx_fromUserId = Some (user_id u), tx_toUserId = None,
                       tx_state = tx_completed, tx_paymentGatewayRef = Some (now e),
                       tx_metadata = ''90% final payment'' \<rparr>) es
       \<and> projects (snd (final_payment_repeated es s p u)) p
           = Some (if es = [] then doc
                   else doc\<lparr> finalAmount := Math_round (total_of doc * (9 / 10)),
                              finalPaidAt := Some (now (last es)) \<rparr>)"
  using assms
proof (induction es arbitrary: s doc)
  case Nil
  then show ?case by simp
next
  case (Cons e es)
  let ?doc1 = "doc\<lparr> finalAmount := Math_round (total_of doc * (9 / 10)),
                      finalPaidAt := Some (now e) \<rparr>"
  let ?s1 = "snd (final_payment_handler e s p u)"
  have e: "notification_error e = None" using Cons.prems(4) by simp
  note step = final_payment_ok [OF Cons.prems(1-3) e]
  have total: "total_of ?doc1 = total_of doc" by (simp add: total_of_def)
  have rest: "\<forall>e \<in> set es. notification_error e = None" using Cons.prems(4) by simp
  have ih: "fst (final_payment_repeated es ?s1 p u)
           = map (\<lambda>e. Success 200 (?doc1\<lparr> finalAmount := Math_round (total_of ?doc1 * (9 / 10)),
                                          finalPaidAt := Some (now e) \<rparr>)) es
       \<and> ledger (snd (final_payment_repeated es ?s1 p u)) = ledger ?s1 @
           map (\<lambda>e. \<lparr> tx_escrowProjectId = p, tx_kind = tx_final_payment,
                       tx_amount = Math_round (total_of ?doc1 * (9 / 10)),
                       tx_currency = ''INR'', tx_fromUserId = Some (user_id u), tx_toUserId = None,
                       tx_state = tx_completed, tx_paymentGatewayRef = Some (now e),
                       tx_metadata = ''90% final payment'' \<rparr>) es
       \<and> projects (snd (final_payment_repeated es ?s1 p u)) p
           = Some (if es = [] then ?doc1
                   else ?doc1\<lparr> finalAmount := Math_round (total_of ?doc1 * (9 / 10)),
                              finalPaidAt := Some (now (last es)) \<rparr>)"
    by (rule Cons.IH [OF step(2) _ _ rest]) (simp_all add: Cons.prems)
  show ?case
    using ih step(1,3) unfolding total
    by (simp add: split_beta)
qed

text \<open>
  C4: the final-payment transition leaves the status at \<open>completed\<close>, so the client
  can repeat it: on a completed project every repetition is answered 200, appends a
  final-payment row of its own to the ledger, and overwrites the final amount and the
  time of the final payment; the status stays \<open>completed\<close>.
\<close>

theorem final_payment_is_not_one_shot:
  assumes "projects s p = Some doc" and "clientId doc = user_id u"
    and "status doc = completed" and "\<forall>e \<in> set es. notification_error e = None"
    and "es \<noteq> []"
  shows "fst (final_payment_repeated es s p u)
           = map (\<lambda>e. Success 200 (doc\<lparr> finalAmount := Math_round (total_of doc * (9 / 10)),
                                          finalPaidAt := Some (now e) \<rparr>)) es
       \<and> ledger (snd (final_payment_repeated es s p u)) = ledger s @
           map (\<lambda>e. \<lparr> tx_escrowProjectId = p, tx_kind = tx_final_payment,
                       tx_amount = Math_round (total_of doc * (9 / 10)),
                       tx_currency = ''INR'', tx_fromUserId = Some (user_id u), tx_toUserId = None,
                       tx_state = tx_completed, tx_paymentGatewayRef = Some (now e),
                       tx_metadata = ''90% final payment'' \<rparr>) es
       \<and> projects (snd (final_payment_repeated es s p u)) p
           = Some (doc\<lparr> finalAmount := Math_round (total_of doc * (9 / 10)),
                         finalPaidAt := Some (now (last es)) \<rparr>)
       \<and> status (doc\<lparr> finalAmount := Math_round (total_of doc * (9 / 10)),
                       finalPaidAt := Some (now (last es)) \<rparr>) = completed"
  using final_payment_repeated_ok [OF assms(1-4)] assms(3,5) by simp

theorem final_payment_is_not_one_shot_witness:
  "projects (db_with (completed_doc 25 3)) 0 = Some (completed_doc 25 3)
   \<and> clientId (completed_doc 25 3) = user_id client0
   \<and> status (completed_doc 25 3) = completed
   \<and> notification_error env_ok = None \<and> notification_error env_later = None
   \<and> fst (final_payment_repeated [env_ok, env_later] (db_with (completed_doc 25 3)) 0 client0)
       = [Success 200 (paid_doc 25 3 23),
          Success 200 ((paid_doc 25 3 23)\<lparr> finalPaidAt := Some 2000 \<rparr>)]
   \<and> map tx_kind (ledger (snd (final_payment_repeated [env_ok, env_later]
         (db_with (completed_doc 25 3)) 0 client0))) = [tx_final_payment, tx_final_payment]
   \<and> map tx_amount (ledger (snd (final_payment_repeated [env_ok, env_later]
         (db_with (completed_doc 25 3)) 0 client0))) = [23, 23]
   \<and> projects (snd (final_payment_repeated [env_ok, env_later]
         (db_with (completed_doc 25 3)) 0 client0)) 0
       = Some ((paid_doc 25 3 23)\<lparr> finalPaidAt := Some 2000 \<rparr>)"
proof -
  have stored: "projects (db_with (completed_doc 25 3)) 0 = Some (completed_doc 25 3)"
    by (simp add: db_with_def)
  have client: "clientId (completed_doc 25 3) = user_id client0"
    and st: "status (completed_doc 25 3) = completed"
    by (simp_all add: doc_defs client0_def)
  have envs: "\<forall>e \<in> set [env_ok, env_later]. notification_error e = None"
    by (simp add: env_ok_def env_later_def)
  have ne: "[env_ok, env_later] \<noteq> []" by simp
  have amount: "Math_round (total_of (completed_doc 25 3) * (9 / 10)) = 23"
    by (simp add: doc_defs total_of_def or_number_def Math_round_def)
  have ledger0: "ledger (db_with (completed_doc 25 3)) = []"
    by (simp add: db_with_def db0_def)
  have nows: "now env_ok = 1000" "now env_later = 2000"
    and notif: "notification_error env_ok = None" "notification_error env_later = None"
    by (simp_all add: env_ok_def env_later_def)
  show ?thesis
    using final_payment_is_not_one_shot [OF stored client st envs ne, unfolded amount]
    by (simp add: stored client st ledger0 nows notif paid_doc_def
        del: final_payment_repeated.simps)
qed

section \<open>Failing notifications\<close>

text \<open>
  C5: a failing notification is only logged and the caller still receives the
  success response. In the accept handler the notification is written inside the
  \<^verbatim>\<open>try\<close> block after the project is saved: when the write fails, the worker who
  accepts the stored offer is answered 500 with the message of the error, the project
  is stored as accepted, no notification exists and nothing is logged.
\<close>

theorem failing_notification_is_surfaced:
  "fst (accept_handler env_down after_offer 0 worker0 accept0)
     = Failure 500 ''notifications unavailable''
   \<and> map_option status (projects (snd (accept_handler env_down after_offer 0 worker0 accept0)) 0)
     = Some accepted
   \<and> map_option status (projects after_offer 0) = Some offer_sent
   \<and> console (snd (accept_handler env_down after_offer 0 worker0 accept0)) = []
   \<and> notifications (snd (accept_handler env_down after_offer 0 worker0 accept0))
     = notifications after_offer"
  by (simp add: lifecycle_defs handler_defs step_defs eval_defs fixture_defs)

text \<open>
  The e-mail and the push of the create-offer handler are the sends whose failure is
  only logged: whatever they do, a valid offer whose notification is written is
  answered 201 with the stored project.
\<close>

lemma offer_email_and_push_are_logged:
  assumes "\<not> offer_invalid b" and "notification_error e = None"
  shows "\<exists>doc. fst (create_offer_handler e s u b) = Success 201 doc
           \<and> projects (snd (create_offer_handler e s u b)) (next_project s) = Some doc"
  using assms
  by (simp add: create_offer_handler_def step_defs send_offer_email_def send_offer_push_def
      split: option.splits)

text \<open>Every other handler answers 500 as well when its notification cannot be written.\<close>

lemma failing_notification_after_save:
  assumes "projects s p = Some doc" and "notification_error e = Some msg"
  shows "workerId doc = user_id u \<Longrightarrow> status doc = offer_sent \<Longrightarrow>
           fst (accept_handler e s p u ab) = Failure 500 msg
           \<and> map_option status (projects (snd (accept_handler e s p u ab)) p) = Some accepted"
    and "workerId doc = user_id u \<Longrightarrow> status doc = offer_sent \<Longrightarrow>
           fst (reject_handler e s p u) = Failure 500 msg
           \<and> map_option status (projects (snd (reject_handler e s p u)) p) = Some rejected"
    and "clientId doc = user_id u \<Longrightarrow> status doc = accepted \<Longrightarrow>
           fst (advance_payment_handler e s p u) = Failure 500 msg
           \<and> map_option status (projects (snd (advance_payment_handler e s p u)) p) = Some in_progress
           \<and> length (ledger (snd (advance_payment_handler e s p u))) = Suc (length (ledger s))"
    and "workerId doc = user_id u \<Longrightarrow> status doc = in_progress \<Longrightarrow>
           fst (complete_handler e s p u) = Failure 500 msg
           \<and> map_option status (projects (snd (complete_handler e s p u)) p) = Some completed"
    and "clientId doc = user_id u \<Longrightarrow> status doc = completed \<Longrightarrow>
           fst (final_payment_handler e s p u) = Failure 500 msg
           \<and> length (ledger (snd (final_payment_handler e s p u))) = Suc (length (ledger s))"
    and "clientId doc = user_id u \<Longrightarrow> status doc = completed \<Longrightarrow> finalPaidAt doc \<noteq> None \<Longrightarrow>
           \<not> rating_invalid (b_rating rb) \<Longrightarrow> to_number (b_rating rb) = Some r \<Longrightarrow>
           fst (rate_handler e s p u rb) = Failure 500 msg
           \<and> map_option status (projects (snd (rate_handler e s p u rb)) p) = Some completed_released"
  using assms
  by (simp_all add: handler_defs step_defs update_card_def split: option.splits)

section \<open>Rating\<close>

text \<open>
  What the rate handler answers to a request it does not carry out, and when it
  carries one out. The rating is valid when it is truthy and converts to a number
  from 1 to 5.
\<close>

lemma rate_refusals:
  assumes "projects s p = Some doc"
  shows "(status doc \<noteq> completed \<or> finalPaidAt doc = None
            \<or> \<not> truthy (b_rating rb)
            \<or> (case to_number (b_rating rb) of None \<Rightarrow> True | Some r \<Rightarrow> r < 1 \<or> 5 < r) \<longrightarrow>
          snd (rate_handler e s p u rb) = s
          \<and> (fst (rate_handler e s p u rb) = Failure 403 ''Not authorized''
              \<or> fst (rate_handler e s p u rb) = Failure 400 ''Rate only after final payment''
              \<or> fst (rate_handler e s p u rb) = Failure 400 ''Rating 1-5 required''
              \<or> fst (rate_handler e s p u rb) = Failure 500 ''WorkerReview validation failed''))
       \<and> (is_Success (fst (rate_handler e s p u rb)) \<longrightarrow>
          status doc = completed \<and> finalPaidAt doc \<noteq> None \<and> truthy (b_rating rb)
          \<and> (\<exists>r. to_number (b_rating rb) = Some r \<and> 1 \<le> r \<and> r \<le> 5))"
  using assms
  by (auto simp: rate_handler_def rating_invalid_def js_lt_def js_gt_def step_defs
      split: option.splits sum.splits)

text \<open>
  C6: a rate request on a project that is not completed, has no recorded final
  payment, or carries a rating outside 1 to 5 is rejected with a client error and
  changes nothing. The client of a completed and paid project who sends the rating
  \<^verbatim>\<open>'abc'\<close> passes the guard \<^verbatim>\<open>!rating || rating < 1 || rating > 5\<close>, since the string
  is truthy and both comparisons with \<^verbatim>\<open>NaN\<close> are false. The review is then refused
  by its schema, and the handler answers 500, a server error, with the collections
  unchanged.
\<close>

theorem non_numeric_rating_is_server_error:
  "rate_handler env_ok (db_with (paid_doc 25 3 23)) 0 client0 rate_abc
     = (Failure 500 ''WorkerReview validation failed'', db_with (paid_doc 25 3 23))"
proof -
  have stored: "projects (db_with (paid_doc 25 3 23)) 0 = Some (paid_doc 25 3 23)"
    by (simp add: db_with_def)
  have paid: "clientId (paid_doc 25 3 23) = user_id client0"
    "status (paid_doc 25 3 23) = completed" "finalPaidAt (paid_doc 25 3 23) \<noteq> None"
    by (simp_all add: doc_defs client0_def)
  have abc: "\<not> rating_invalid (b_rating rate_abc)" "to_number (b_rating rate_abc) = None"
    by (simp_all add: rate_abc_def js_not_a_number_def rating_invalid_def js_lt_def js_gt_def)
  show ?thesis by (simp add: rate_handler_def stored paid abc)
qed

theorem non_numeric_rating_is_server_error_witness:
  "code (fst (rate_handler env_ok (db_with (paid_doc 25 3 23)) 0 client0 rate_abc)) = 500
   \<and> truthy (b_rating rate_abc) \<and> to_number (b_rating rate_abc) = None
   \<and> status (paid_doc 25 3 23) = completed \<and> finalPaidAt (paid_doc 25 3 23) = Some 1000
   \<and> clientId (paid_doc 25 3 23) = user_id client0
   \<and> reviews (snd (rate_handler env_ok (db_with (paid_doc 25 3 23)) 0 client0 rate_abc)) = []
   \<and> ledger (snd (rate_handler env_ok (db_with (paid_doc 25 3 23)) 0 client0 rate_abc)) = []"
proof -
  have facts: "truthy (b_rating rate_abc)" "to_number (b_rating rate_abc) = None"
    "status (paid_doc 25 3 23) = completed" "finalPaidAt (paid_doc 25 3 23) = Some 1000"
    "clientId (paid_doc 25 3 23) = user_id client0"
    "reviews (db_with (paid_doc 25 3 23)) = []" "ledger (db_with (paid_doc 25 3 23)) = []"
    by (simp_all add: rate_abc_def js_not_a_number_def doc_defs client0_def db_with_def db0_def)
  show ?thesis
    by (simp add: non_numeric_rating_is_server_error facts)
qed

section \<open>The parties of an offer\<close>

text \<open>
  C7, as stated: the client and the worker of a created offer differ. The handler
  accepts an offer in which the client is named as the worker.
\<close>

theorem offer_parties_counterexample:
  "fst (create_offer_handler env_ok db0 client0 self_offer)
     = Success 201 (new_project 1 1 ''Logo'' [] 25 5000)
   \<and> projects (snd (create_offer_handler env_ok db0 client0 self_offer)) 0
     = Some (new_project 1 1 ''Logo'' [] 25 5000)
   \<and> clientId (new_project 1 1 ''Logo'' [] 25 5000) = workerId (new_project 1 1 ''Logo'' [] 25 5000)"
  by (simp add: create_offer_handler_def step_defs eval_defs self_offer_def client0_def
      env_ok_def db0_def new_project_def)

text \<open>
  C7, amended: every project that a create-offer command stores references one client
  and one worker: the client is the authenticated caller, the worker (also recorded as
  the chat partner) is the worker the request names, and the project starts as an
  offer. The two parties differ exactly when the request names someone other than the
  caller.
\<close>

theorem offer_parties:
  assumes "fst (create_offer_handler e s u b) = Success c doc"
  shows "c = 201 \<and> clientId doc = user_id u \<and> b_workerId b = Some (workerId doc)
       \<and> chatWithUserId doc = workerId doc \<and> status doc = offer_sent
       \<and> projects (snd (create_offer_handler e s u b)) (next_project s) = Some doc
       \<and> (clientId doc = workerId doc) = (b_workerId b = Some (user_id u))"
  using assms
  by (auto simp: create_offer_handler_def offer_invalid_def step_defs new_project_def
      send_offer_email_def send_offer_push_def split: if_splits option.splits)

theorem offer_parties_witness:
  "fst (create_offer_handler env_ok db0 client0 offer0) = Success 201 (offer_doc 25)
   \<and> clientId (offer_doc 25) = user_id client0 \<and> b_workerId offer0 = Some (workerId (offer_doc 25))
   \<and> chatWithUserId (offer_doc 25) = workerId (offer_doc 25) \<and> status (offer_doc 25) = offer_sent
   \<and> projects after_offer 0 = Some (offer_doc 25)
   \<and> clientId (offer_doc 25) \<noteq> workerId (offer_doc 25)"
proof -
  have answer: "fst (create_offer_handler env_ok db0 client0 offer0) = Success 201 (offer_doc 25)"
    by (simp add: create_offer_handler_def step_defs eval_defs offer0_def client0_def
        env_ok_def db0_def doc_defs)
  have fresh: "next_project db0 = 0" by (simp add: db0_def)
  have named: "b_workerId offer0 \<noteq> Some (user_id client0)"
    by (simp add: offer0_def client0_def)
  show ?thesis
    using offer_parties [OF answer] by (simp add: answer after_offer_def fresh named)
qed

section \<open>The rating on the worker's card\<close>




section \<open>Progress updates\<close>

text \<open>
  C9: the progress update is idempotent: repeated with the same payload on the
  collections it left, it gives the same answer and leaves the same collections. When
  it succeeds, the stored percentage is the payload's, clamped between 0 and 100, and
  the stored milestones are the payload's list.
\<close>

theorem progress_is_idempotent:
  "progress_handler (snd (progress_handler s p u pb)) p u pb = progress_handler s p u pb
   \<and> (\<forall>c doc. fst (progress_handler s p u pb) = Success c doc \<longrightarrow>
        projects (snd (progress_handler s p u pb)) p = Some doc
        \<and> (\<forall>x. b_progressPercent pb = Some x \<longrightarrow>
              progressPercent doc = min 100 (max 0 x)
              \<and> 0 \<le> progressPercent doc \<and> progressPercent doc \<le> 100)
        \<and> (\<forall>ms. b_milestones pb = Some ms \<longrightarrow> milestones doc = ms))"
  by (auto simp: progress_handler_def step_defs split: option.splits)

theorem progress_is_idempotent_witness:
  "fst (progress_handler (db_with (offer_doc 25)) 0 worker0 progress0)
     = Success 200 ((offer_doc 25)\<lparr> progressPercent := 100, milestones := the (b_milestones progress0) \<rparr>)
   \<and> b_progressPercent progress0 = Some 120
   \<and> progress_handler (snd (progress_handler (db_with (offer_doc 25)) 0 worker0 progress0)) 0 worker0 progress0
     = progress_handler (db_with (offer_doc 25)) 0 worker0 progress0
   \<and> progressPercent ((offer_doc 25)\<lparr> progressPercent := 100, milestones := the (b_milestones progress0) \<rparr>)
     = min 100 (max 0 120)"
proof -
  have answer: "fst (progress_handler (db_with (offer_doc 25)) 0 worker0 progress0)
     = Success 200 ((offer_doc 25)\<lparr> progressPercent := 100, milestones := the (b_milestones progress0) \<rparr>)"
    by (simp add: progress_handler_def step_defs db_with_def doc_defs worker0_def progress0_def
        valid_milestone_def)
  have again: "progress_handler (snd (progress_handler (db_with (offer_doc 25)) 0 worker0 progress0))
        0 worker0 progress0 = progress_handler (db_with (offer_doc 25)) 0 worker0 progress0"
    using progress_is_idempotent [of "db_with (offer_doc 25)" 0 worker0 progress0]
    by (rule conjunct1)
  have clamped: "b_progressPercent progress0 = Some 120"
    "progressPercent ((offer_doc 25)\<lparr> progressPercent := 100,
        milestones := the (b_milestones progress0) \<rparr>) = min 100 (max 0 120)"
    by (simp_all add: progress0_def)
  show ?thesis
    by (intro conjI) (rule answer clamped again)+
qed

end
